theory Spec2Isabelle
  imports Main "HOL-Library.Word"
begin

section \<open>JavaScript strings\<close>

text \<open>
  A JavaScript string is a sequence of UTF-16 code units. \<open>String.prototype.trim\<close>
  strips ECMAScript white space and line terminators, several of which lie beyond
  Latin-1, so code units are modelled as 16-bit words and not as \<open>char\<close>.
\<close>

type_synonym jsstring = "16 word list"

definition str :: "string \<Rightarrow> jsstring" where
  "str cs = map of_char cs"

text \<open>
  The code units removed by \<open>trim\<close>: WhiteSpace (TAB, VT, FF, SP, NBSP, ZWNBSP and the
  Unicode category Zs) and LineTerminator (LF, CR, LS, PS).
\<close>

definition isWhiteSpace :: "16 word \<Rightarrow> bool" where
  "isWhiteSpace c \<longleftrightarrow>
     c = 0x0009 \<or> c = 0x000A \<or> c = 0x000B \<or> c = 0x000C \<or> c = 0x000D \<or>
     c = 0x0020 \<or> c = 0x00A0 \<or> c = 0x1680 \<or> (0x2000 \<le> c \<and> c \<le> 0x200A) \<or>
     c = 0x2028 \<or> c = 0x2029 \<or> c = 0x202F \<or> c = 0x205F \<or> c = 0x3000 \<or>
     c = 0xFEFF"

definition trim :: "jsstring \<Rightarrow> jsstring" where
  "trim s = rev (dropWhile isWhiteSpace (rev (dropWhile isWhiteSpace s)))"

text \<open>A string is falsy exactly when it is empty.\<close>

definition falsy_string :: "jsstring \<Rightarrow> bool" where
  "falsy_string s \<longleftrightarrow> s = []"

section \<open>The REST client (\<open>lib/api.ts\<close>)\<close>

datatype http_method = GET | POST | DELETE

datatype body = NoBody | ChatBody (pet_id: jsstring) (message: jsstring)

datatype request = Request http_method jsstring body

text \<open>A rejected promise: a transport failure or a non-2xx status.\<close>

datatype error = NetworkError | HttpStatus nat

record Pet =
  id' :: jsstring
  name :: jsstring
  pet_type :: jsstring
  breed :: "jsstring option"
  age :: "int option"
  personality_traits :: "jsstring list"
  favorite_things :: "jsstring list"
  quirks :: "jsstring option"
  created_at :: jsstring

datatype role = RoleUser | RolePet

record ChatMessage =
  role :: role
  content :: jsstring
  timestamp :: jsstring

definition listPets :: "jsstring \<Rightarrow> request" where
  "listPets userId = Request GET (str ''/pets?user_id='' @ userId) NoBody"

definition getPet :: "jsstring \<Rightarrow> request" where
  "getPet petId = Request GET (str ''/pets/'' @ petId) NoBody"

definition deletePet :: "jsstring \<Rightarrow> request" where
  "deletePet petId = Request DELETE (str ''/pets/'' @ petId) NoBody"

definition sendMessage :: "jsstring \<Rightarrow> jsstring \<Rightarrow> request" where
  "sendMessage petId msg = Request POST (str ''/chat'') (ChatBody petId msg)"

definition getHistory :: "jsstring \<Rightarrow> request" where
  "getHistory petId = Request GET (str ''/chat/'' @ petId @ str ''/history'') NoBody"

definition clearHistory :: "jsstring \<Rightarrow> request" where
  "clearHistory petId = Request DELETE (str ''/chat/'' @ petId @ str ''/history'') NoBody"

text \<open>
  The decoded body of a reply to \<open>POST /chat\<close>, read by the chat page as
  \<open>response.data.message\<close> and \<open>response.data.timestamp\<close>.
\<close>

datatype send_data = SendData (reply_message: jsstring) (reply_timestamp: jsstring)

text \<open>
  Responses are modelled at their declared TypeScript types, with one exception: the
  chat page reads the history as \<open>historyRes.data.messages || []\<close>, so the
  \<open>messages\<close> field of that payload also ranges over the falsy values a JSON body
  can give it (the field missing, \<open>null\<close>, \<open>false\<close>, \<open>0\<close>, the empty string).
  An array, also the empty one, is truthy.
\<close>

datatype messages_field =
  Missing | JsonNull | JsonFalse | JsonZero | JsonEmptyString | Messages "ChatMessage list"

fun truthy :: "messages_field \<Rightarrow> bool" where
  "truthy (Messages ms) = True"
| "truthy Missing = False"
| "truthy JsonNull = False"
| "truthy JsonFalse = False"
| "truthy JsonZero = False"
| "truthy JsonEmptyString = False"

text \<open>\<open>field || []\<close> at the type \<open>ChatMessage[]\<close>.\<close>

fun or_empty :: "messages_field \<Rightarrow> ChatMessage list" where
  "or_empty (Messages ms) = ms"
| "or_empty f = []"

section \<open>Effects\<close>

text \<open>
  What a handler does besides updating the component state, in program order.
  \<open>console.error\<close> is logged with its label only: the error object it prints next to
  the label plays no part in any state update.
\<close>

datatype effect =
  PreventDefault
| StopPropagation
| Confirm jsstring
| Alert jsstring
| ConsoleError jsstring
| RouterPush jsstring
| Http request

fun requests :: "effect list \<Rightarrow> request list" where
  "requests [] = []"
| "requests (Http r # fx) = r # requests fx"
| "requests (e # fx) = requests fx"

section \<open>The chat page (\<open>ChatPage\<close>)\<close>

text \<open>
  The component state of the chat page, one field for each \<open>useState\<close>. The
  route parameter \<open>petId\<close> is an argument of every handler.
\<close>

record chat_state =
  pet :: "Pet option"
  messages :: "ChatMessage list"
  inputText :: jsstring
  isTyping :: bool
  loading :: bool

definition chat_initial :: chat_state where
  "chat_initial =
     \<lparr>pet = None, messages = [], inputText = [], isTyping = False, loading = True\<rparr>"

text \<open>
  \<open>init\<close>: \<open>Promise.all\<close> issues both requests before it waits, and rejects as soon
  as one of them rejects, so neither \<open>setPet\<close> nor \<open>setMessages\<close> runs unless both
  were fulfilled. The \<open>catch\<close> block only logs (its \<open>router.push('/')\<close> is commented
  out) and the \<open>finally\<close> block clears \<open>loading\<close> on every path.
\<close>

definition init ::
  "jsstring \<Rightarrow> error + Pet \<Rightarrow> error + messages_field \<Rightarrow> chat_state \<Rightarrow> chat_state \<times> effect list"
where
  "init petId petRes historyRes s =
     (let issued = [Http (getPet petId), Http (getHistory petId)] in
      case petRes of
        Inl e \<Rightarrow>
          (s\<lparr>loading := False\<rparr>, issued @ [ConsoleError (str ''Failed to initialize chat:'')])
      | Inr petData \<Rightarrow>
          (case historyRes of
             Inl e \<Rightarrow>
               (s\<lparr>loading := False\<rparr>,
                issued @ [ConsoleError (str ''Failed to initialize chat:'')])
           | Inr field \<Rightarrow>
               (s\<lparr>pet := Some petData, messages := or_empty field, loading := False\<rparr>,
                issued)))"

text \<open>
  \<open>handleSendMessage\<close> runs in two parts. The part up to the \<open>await\<close> runs when the form
  is submitted; it reads \<open>inputText\<close>, \<open>isTyping\<close> and \<open>messages\<close> of the render that
  created the handler. The part after the \<open>await\<close> runs when the request settles, and
  its \<open>setMessages(prev => [...prev, petResponse])\<close> reads the state of that moment.
  \<open>now\<close> is \<open>new Date().toISOString()\<close>.
\<close>

definition handleSendMessage_submit ::
  "jsstring \<Rightarrow> jsstring \<Rightarrow> chat_state \<Rightarrow> chat_state \<times> effect list"
where
  "handleSendMessage_submit petId now s =
     (if falsy_string (trim (inputText s)) \<or> isTyping s then (s, [PreventDefault])
      else
        let userMessage = \<lparr>role = RoleUser, content = inputText s, timestamp = now\<rparr>;
            currentInput = inputText s
        in (s\<lparr>messages := messages s @ [userMessage], inputText := [], isTyping := True\<rparr>,
            [PreventDefault, Http (sendMessage petId currentInput)]))"

definition handleSendMessage_settle ::
  "error + send_data \<Rightarrow> chat_state \<Rightarrow> chat_state \<times> effect list"
where
  "handleSendMessage_settle response s =
     (case response of
        Inr data \<Rightarrow>
          (let petResponse =
             \<lparr>role = RolePet, content = reply_message data, timestamp = reply_timestamp data\<rparr>
           in (s\<lparr>messages := messages s @ [petResponse], isTyping := False\<rparr>, []))
      | Inl e \<Rightarrow>
          (s\<lparr>isTyping := False\<rparr>,
           [ConsoleError (str ''Failed to send message:''),
            Alert (str ''Your pet is taking a nap. Try again in a moment.'')]))"

text \<open>
  One whole call of \<open>handleSendMessage\<close>, with nothing else happening while the request
  is outstanding: the second part runs only if the first one issued the request.
\<close>

definition handleSendMessage ::
  "jsstring \<Rightarrow> jsstring \<Rightarrow> error + send_data \<Rightarrow> chat_state \<Rightarrow> chat_state \<times> effect list"
where
  "handleSendMessage petId now response s =
     (let (s1, fx1) = handleSendMessage_submit petId now s in
      if requests fx1 = [] then (s1, fx1)
      else let (s2, fx2) = handleSendMessage_settle response s1 in (s2, fx1 @ fx2))"

text \<open>
  \<open>handleClearHistory\<close>: \<open>confirmed\<close> is the answer to the \<open>confirm\<close> dialog. The only
  state update is \<open>setMessages([])\<close>, after the request was fulfilled.
\<close>

definition handleClearHistory ::
  "jsstring \<Rightarrow> bool \<Rightarrow> error + unit \<Rightarrow> chat_state \<Rightarrow> chat_state \<times> effect list"
where
  "handleClearHistory petId confirmed response s =
     (let asked = [Confirm (str ''Clear all chat history for this pet?'')] in
      if confirmed then
        (case response of
           Inr u \<Rightarrow> (s\<lparr>messages := []\<rparr>, asked @ [Http (clearHistory petId)])
         | Inl e \<Rightarrow>
             (s, asked @ [Http (clearHistory petId),
                          ConsoleError (str ''Failed to clear history:'')]))
      else (s, asked))"

text \<open>
  What the page renders: the spinner while \<open>loading\<close>, else the chat with its header
  (\<open>pet?.name || 'Pet'\<close>), the messages, the typing indicator, the input and the
  \<open>disabled\<close> flag of the send button.
\<close>

datatype view =
  Spinner
| Chat (header: jsstring) (shown: "ChatMessage list") (typing: bool)
       (input_value: jsstring) (send_disabled: bool)

definition pet_title :: "Pet option \<Rightarrow> jsstring" where
  "pet_title p =
     (case p of
        None \<Rightarrow> str ''Pet''
      | Some q \<Rightarrow> if falsy_string (name q) then str ''Pet'' else name q)"

definition ChatPage :: "chat_state \<Rightarrow> view" where
  "ChatPage s =
     (if loading s then Spinner
      else Chat (pet_title (pet s)) (messages s) (isTyping s) (inputText s)
                (falsy_string (trim (inputText s)) \<or> isTyping s))"

subsection \<open>One conversation over time\<close>

text \<open>
  The page together with the \<open>POST /chat\<close> requests that were issued and have not
  settled yet. An event is one thing that happens to the mounted page: \<open>init\<close>
  settles, the input changes, the form is submitted, the oldest outstanding send
  settles, the clear button is clicked. The form and the clear button exist only once
  the spinner is gone, so their events do nothing while \<open>loading\<close> holds.
\<close>

record session =
  ui :: chat_state
  inflight :: "request list"

definition session_initial :: session where
  "session_initial = \<lparr>ui = chat_initial, inflight = []\<rparr>"

datatype event =
  InitSettled "error + Pet" "error + messages_field"
| InputChanged jsstring
| FormSubmitted jsstring
| SendSettled "error + send_data"
| ClearClicked bool "error + unit"

fun step :: "jsstring \<Rightarrow> session \<Rightarrow> event \<Rightarrow> session" where
  "step petId ss (InitSettled petRes historyRes) =
     ss\<lparr>ui := fst (init petId petRes historyRes (ui ss))\<rparr>"
| "step petId ss (InputChanged text) =
     (if loading (ui ss) then ss else ss\<lparr>ui := (ui ss)\<lparr>inputText := text\<rparr>\<rparr>)"
| "step petId ss (FormSubmitted now) =
     (if loading (ui ss) then ss
      else let (s', fx) = handleSendMessage_submit petId now (ui ss)
           in ss\<lparr>ui := s', inflight := inflight ss @ requests fx\<rparr>)"
| "step petId ss (SendSettled response) =
     (case inflight ss of
        [] \<Rightarrow> ss
      | r # rs \<Rightarrow> ss\<lparr>ui := fst (handleSendMessage_settle response (ui ss)), inflight := rs\<rparr>)"
| "step petId ss (ClearClicked confirmed response) =
     (if loading (ui ss) then ss
      else ss\<lparr>ui := fst (handleClearHistory petId confirmed response (ui ss))\<rparr>)"

definition run :: "jsstring \<Rightarrow> event list \<Rightarrow> session" where
  "run petId evs = foldl (step petId) session_initial evs"

section \<open>The dashboard (\<open>app/page.tsx\<close>)\<close>

record dashboard_state =
  pets :: "Pet list"
  loading :: bool

definition dashboard_initial :: dashboard_state where
  "dashboard_initial = \<lparr>pets = [], loading = True\<rparr>"

text \<open>
  \<open>fetchPets\<close>, with \<open>userId\<close> the value of \<open>user?.uid || 'demo-user'\<close>.
\<close>

definition fetchPets ::
  "jsstring \<Rightarrow> error + Pet list \<Rightarrow> dashboard_state \<Rightarrow> dashboard_state \<times> effect list"
where
  "fetchPets userId response d =
     (case response of
        Inr data \<Rightarrow> (d\<lparr>pets := data, loading := False\<rparr>, [Http (listPets userId)])
      | Inl e \<Rightarrow>
          (d\<lparr>loading := False\<rparr>,
           [Http (listPets userId), ConsoleError (str ''Failed to fetch pets:'')]))"

text \<open>
  \<open>handleDeletePet\<close> runs in two parts. The part up to the \<open>await\<close> runs on the click:
  it asks for confirmation (\<open>confirmed\<close> is the answer) and issues the \<open>DELETE\<close>; it
  updates no state. The part after the \<open>await\<close> runs when the request settles. Its
  \<open>setPets(pets.filter(p => p.id !== id))\<close> is not in updater form: \<open>pets\<close> is the list
  of the render that created the handler (\<open>rendered\<close>), and the filtered copy of that
  list replaces whatever the list is when the request settles.
\<close>

definition handleDeletePet_click :: "jsstring \<Rightarrow> bool \<Rightarrow> effect list" where
  "handleDeletePet_click i confirmed =
     (let asked = [PreventDefault, StopPropagation,
                   Confirm (str ''Are you sure you want to delete this pet?'')] in
      if confirmed then asked @ [Http (deletePet i)] else asked)"

definition handleDeletePet_settle ::
  "jsstring \<Rightarrow> Pet list \<Rightarrow> error + unit \<Rightarrow> dashboard_state \<Rightarrow> dashboard_state \<times> effect list"
where
  "handleDeletePet_settle i rendered response d =
     (case response of
        Inr u \<Rightarrow> (d\<lparr>pets := filter (\<lambda>p. Pet.id' p \<noteq> i) rendered\<rparr>, [])
      | Inl e \<Rightarrow> (d, [ConsoleError (str ''Failed to delete pet:'')]))"

text \<open>
  One whole call of \<open>handleDeletePet\<close> with nothing else happening while the request is
  outstanding: the list of the render is then still the list of the state.
\<close>

definition handleDeletePet ::
  "jsstring \<Rightarrow> bool \<Rightarrow> error + unit \<Rightarrow> dashboard_state \<Rightarrow> dashboard_state \<times> effect list"
where
  "handleDeletePet i confirmed response d =
     (let fx1 = handleDeletePet_click i confirmed in
      if requests fx1 = [] then (d, fx1)
      else let (d2, fx2) = handleDeletePet_settle i (pets d) response d in (d2, fx1 @ fx2))"

subsection \<open>The dashboard over time\<close>

text \<open>
  The dashboard together with the \<open>DELETE\<close> requests that have not settled yet, each
  with the id and the list its handler closed over. A delete button exists for each
  pet of the list once the spinner is gone; the click reads the list of the current
  render. A settling event settles the oldest outstanding request.
\<close>

record dashboard =
  board :: dashboard_state
  deleting :: "(jsstring \<times> Pet list) list"

datatype dashboard_event =
  PetsFetched jsstring "error + Pet list"
| DeleteClicked jsstring bool
| DeleteSettled "error + unit"

fun dashboard_step :: "dashboard \<Rightarrow> dashboard_event \<Rightarrow> dashboard" where
  "dashboard_step db (PetsFetched userId response) =
     db\<lparr>board := fst (fetchPets userId response (board db))\<rparr>"
| "dashboard_step db (DeleteClicked i confirmed) =
     (if loading (board db) \<or> i \<notin> set (map Pet.id' (pets (board db))) then db
      else if requests (handleDeletePet_click i confirmed) = [] then db
      else db\<lparr>deleting := deleting db @ [(i, pets (board db))]\<rparr>)"
| "dashboard_step db (DeleteSettled response) =
     (case deleting db of
        [] \<Rightarrow> db
      | (i, rendered) # rest \<Rightarrow>
          db\<lparr>board := fst (handleDeletePet_settle i rendered response (board db)),
             deleting := rest\<rparr>)"

definition dashboard_run :: "dashboard_event list \<Rightarrow> dashboard" where
  "dashboard_run evs = foldl dashboard_step \<lparr>board = dashboard_initial, deleting = []\<rparr> evs"

text \<open>A pet of type dog with the given id and name, for concrete lists.\<close>

abbreviation dog :: "jsstring \<Rightarrow> jsstring \<Rightarrow> Pet" where
  "dog i n \<equiv>
     \<lparr>id' = i, name = n, pet_type = str ''dog'', breed = None, age = None,
      personality_traits = [], favorite_things = [], quirks = None, created_at = str ''T0''\<rparr>"

section \<open>The identity provider (\<open>AuthProvider\<close>)\<close>

datatype User = User (uid: jsstring) (email: "jsstring option")

record auth_state =
  user :: "User option"
  loading :: bool

definition auth_initial :: auth_state where
  "auth_initial = \<lparr>user = None, loading = True\<rparr>"

text \<open>
  The callback registered with \<open>onAuthStateChanged\<close>. \<open>pathname\<close> is the value of
  \<open>usePathname()\<close> in the render that registered it; the effect registers it again
  whenever the path changes.
\<close>

definition authStateChanged ::
  "jsstring \<Rightarrow> User option \<Rightarrow> auth_state \<Rightarrow> auth_state \<times> effect list"
where
  "authStateChanged pathname observed a =
     (case observed of
        Some u \<Rightarrow> (a\<lparr>user := Some u, auth_state.loading := False\<rparr>, [])
      | None \<Rightarrow>
          (a\<lparr>user := None, auth_state.loading := False\<rparr>,
           if pathname \<noteq> str ''/login'' \<and> pathname \<noteq> str ''/signup''
           then [RouterPush (str ''/login'')] else []))"

section \<open>The pet creation form (\<open>CreatePet\<close>)\<close>

record formData =
  name :: jsstring
  pet_type :: jsstring
  breed :: jsstring
  age :: int
  personality_traits :: "jsstring list"
  favorite_things :: "jsstring list"
  quirks :: jsstring

definition formData_initial :: formData where
  "formData_initial =
     \<lparr>name = [], pet_type = str ''dog'', breed = [], age = 0,
      personality_traits = [], favorite_things = [], quirks = []\<rparr>"

definition toggleTrait :: "jsstring \<Rightarrow> formData \<Rightarrow> formData" where
  "toggleTrait trait fd =
     (if trait \<in> set (personality_traits fd) then
        fd\<lparr>personality_traits := filter (\<lambda>t. t \<noteq> trait) (personality_traits fd)\<rparr>
      else if length (personality_traits fd) < 5 then
        fd\<lparr>personality_traits := personality_traits fd @ [trait]\<rparr>
      else fd)"

text \<open>The form after a sequence of clicks on trait buttons, first click first.\<close>

definition toggles :: "jsstring list \<Rightarrow> formData \<Rightarrow> formData" where
  "toggles ts fd = foldl (\<lambda>f t. toggleTrait t f) fd ts"

section \<open>The sending invariant\<close>

text \<open>
  The typing indicator is on exactly while one send is outstanding, and no send is
  outstanding while it is off.
\<close>

definition sending_inv :: "session \<Rightarrow> bool" where
  "sending_inv ss \<longleftrightarrow>
     (isTyping (ui ss) \<and> length (inflight ss) = 1) \<or> (\<not> isTyping (ui ss) \<and> inflight ss = [])"

section \<open>Auxiliary facts\<close>

lemma trim_empty_iff: "trim t = [] \<longleftrightarrow> list_all isWhiteSpace t"
proof
  assume "trim t = []"
  then have all: "\<forall>c\<in>set (dropWhile isWhiteSpace t). isWhiteSpace c"
    by (simp add: trim_def)
  have "dropWhile isWhiteSpace t = []"
  proof (rule ccontr)
    assume ne: "dropWhile isWhiteSpace t \<noteq> []"
    then have "\<not> isWhiteSpace (hd (dropWhile isWhiteSpace t))"
      by (rule hd_dropWhile)
    moreover from ne have "hd (dropWhile isWhiteSpace t) \<in> set (dropWhile isWhiteSpace t)"
      by simp
    ultimately show False using all by blast
  qed
  then show "list_all isWhiteSpace t"
    by (simp add: list_all_iff)
next
  assume "list_all isWhiteSpace t"
  then show "trim t = []"
    by (auto simp: trim_def list_all_iff dest: set_dropWhileD)
qed

lemma settle_isTyping: "\<not> isTyping (fst (handleSendMessage_settle r s))"
  by (simp add: handleSendMessage_settle_def Let_def split: sum.splits)

lemma init_isTyping: "isTyping (fst (init petId p h s)) = isTyping s"
  by (simp add: init_def Let_def split: sum.splits)

lemma clear_isTyping: "isTyping (fst (handleClearHistory petId c r s)) = isTyping s"
  by (simp add: handleClearHistory_def Let_def split: sum.splits)

lemma step_sending_inv:
  assumes "sending_inv ss"
  shows "sending_inv (step petId ss ev)"
proof (cases ev)
  case (InitSettled p h)
  with assms show ?thesis by (simp add: sending_inv_def init_isTyping)
next
  case (InputChanged t)
  with assms show ?thesis by (simp add: sending_inv_def)
next
  case (FormSubmitted now)
  with assms show ?thesis
    by (auto simp: sending_inv_def handleSendMessage_submit_def Let_def)
next
  case (SendSettled r)
  with assms show ?thesis
    by (cases "inflight ss") (simp_all add: sending_inv_def settle_isTyping)
next
  case (ClearClicked c r)
  with assms show ?thesis by (simp add: sending_inv_def clear_isTyping)
qed

lemma foldl_sending_inv: "sending_inv ss \<Longrightarrow> sending_inv (foldl (step petId) ss evs)"
  by (induction evs arbitrary: ss) (simp_all add: step_sending_inv)

lemma run_sending_inv: "sending_inv (run petId evs)"
  unfolding run_def
  by (rule foldl_sending_inv) (simp add: sending_inv_def session_initial_def chat_initial_def)

lemma filter_neq_remove1: "distinct xs \<Longrightarrow> filter (\<lambda>t. t \<noteq> x) xs = remove1 x xs"
  by (induction xs) (auto simp: remove1_idem)

lemma toggleTrait_bounded:
  "length (personality_traits fd) \<le> 5 \<Longrightarrow> length (personality_traits (toggleTrait trait fd)) \<le> 5"
  by (auto simp: toggleTrait_def intro: le_trans [OF length_filter_le])

lemma toggleTrait_distinct:
  "distinct (personality_traits fd) \<Longrightarrow> distinct (personality_traits (toggleTrait trait fd))"
  by (simp add: toggleTrait_def)

lemma toggles_invariant:
  "length (personality_traits fd) \<le> 5 \<and> distinct (personality_traits fd) \<Longrightarrow>
   length (personality_traits (toggles ts fd)) \<le> 5 \<and> distinct (personality_traits (toggles ts fd))"
  unfolding toggles_def
  by (induction ts arbitrary: fd) (simp_all add: toggleTrait_bounded toggleTrait_distinct)

section \<open>Submitting a message\<close>

text \<open>
  C1. A submit with an input that is not blank after trimming, made while no send is
  outstanding, first appends the user's message (the input as typed, with the client's
  time stamp), clears the input, turns the typing indicator on and issues one
  \<open>POST /chat\<close>. When that request is fulfilled, the whole call has appended exactly
  the user's message followed by the pet's message built from the reply; the earlier
  messages are a prefix of the result, the rest of the state is as before and the
  typing indicator is off again. The second part by itself appends the pet's message
  to the sequence it finds and turns the typing indicator off.
\<close>

theorem submit_success:
  assumes "trim (inputText s) \<noteq> []" and "\<not> isTyping s"
  shows "handleSendMessage_submit petId now s =
           (s\<lparr>messages := messages s @
                 [\<lparr>role = RoleUser, content = inputText s, timestamp = now\<rparr>],
              inputText := [], isTyping := True\<rparr>,
            [PreventDefault, Http (sendMessage petId (inputText s))]) \<and>
         handleSendMessage petId now (Inr data) s =
           (s\<lparr>messages := messages s @
                 [\<lparr>role = RoleUser, content = inputText s, timestamp = now\<rparr>,
                  \<lparr>role = RolePet, content = reply_message data,
                     timestamp = reply_timestamp data\<rparr>],
              inputText := [], isTyping := False\<rparr>,
            [PreventDefault, Http (sendMessage petId (inputText s))]) \<and>
         handleSendMessage_settle (Inr data) s' =
           (s'\<lparr>messages := messages s' @
                 [\<lparr>role = RolePet, content = reply_message data,
                    timestamp = reply_timestamp data\<rparr>],
              isTyping := False\<rparr>, [])"
  using assms
  by (simp add: handleSendMessage_def handleSendMessage_submit_def
      handleSendMessage_settle_def falsy_string_def Let_def)

theorem submit_success_witness:
  "trim (inputText (chat_initial\<lparr>inputText := str ''hello'', chat_state.loading := False\<rparr>)) \<noteq> [] \<and>
   \<not> isTyping (chat_initial\<lparr>inputText := str ''hello'', chat_state.loading := False\<rparr>) \<and>
   messages (fst (handleSendMessage (str ''p1'') (str ''T1'') (Inr (SendData (str ''Woof!'') (str ''T2'')))
       (chat_initial\<lparr>inputText := str ''hello'', chat_state.loading := False\<rparr>))) =
     [\<lparr>role = RoleUser, content = str ''hello'', timestamp = str ''T1''\<rparr>,
      \<lparr>role = RolePet, content = str ''Woof!'', timestamp = str ''T2''\<rparr>]"
proof -
  have h1: "trim (inputText (chat_initial\<lparr>inputText := str ''hello'', chat_state.loading := False\<rparr>)) \<noteq> []"
    by (simp add: trim_def str_def isWhiteSpace_def)
  have h2: "\<not> isTyping (chat_initial\<lparr>inputText := str ''hello'', chat_state.loading := False\<rparr>)"
    by (simp add: chat_initial_def)
  from submit_success [OF h1 h2, of "str ''p1''" "str ''T1''" "SendData (str ''Woof!'') (str ''T2'')"]
  have "messages (fst (handleSendMessage (str ''p1'') (str ''T1'') (Inr (SendData (str ''Woof!'') (str ''T2'')))
       (chat_initial\<lparr>inputText := str ''hello'', chat_state.loading := False\<rparr>))) =
     [\<lparr>role = RoleUser, content = str ''hello'', timestamp = str ''T1''\<rparr>,
      \<lparr>role = RolePet, content = str ''Woof!'', timestamp = str ''T2''\<rparr>]"
    by (simp add: chat_initial_def)
  with h1 h2 show ?thesis by blast
qed

text \<open>
  C2. When the send request of such a submit is rejected, the user's message stays:
  the sequence is the earlier one with that single entry appended (one more
  occurrence of it than before, nothing else added or removed), the error is logged
  and shown in an alert, the typing indicator is off, and a further submit with a
  non-blank input issues a request again.
\<close>

theorem submit_failure:
  assumes "trim (inputText s) \<noteq> []" and "\<not> isTyping s"
  shows "handleSendMessage petId now (Inl e) s =
           (s\<lparr>messages := messages s @
                 [\<lparr>role = RoleUser, content = inputText s, timestamp = now\<rparr>],
              inputText := [], isTyping := False\<rparr>,
            [PreventDefault, Http (sendMessage petId (inputText s)),
             ConsoleError (str ''Failed to send message:''),
             Alert (str ''Your pet is taking a nap. Try again in a moment.'')]) \<and>
         count_list (messages (fst (handleSendMessage petId now (Inl e) s)))
             \<lparr>role = RoleUser, content = inputText s, timestamp = now\<rparr> =
           count_list (messages s) \<lparr>role = RoleUser, content = inputText s, timestamp = now\<rparr> + 1 \<and>
         (trim t \<noteq> [] \<longrightarrow>
            requests (snd (handleSendMessage_submit petId now'
               ((fst (handleSendMessage petId now (Inl e) s))\<lparr>inputText := t\<rparr>))) =
              [sendMessage petId t])"
  using assms
  by (simp add: handleSendMessage_def handleSendMessage_submit_def
      handleSendMessage_settle_def falsy_string_def Let_def)

theorem submit_failure_witness:
  "trim (inputText (chat_initial\<lparr>inputText := str ''hello'', chat_state.loading := False\<rparr>)) \<noteq> [] \<and>
   \<not> isTyping (chat_initial\<lparr>inputText := str ''hello'', chat_state.loading := False\<rparr>) \<and>
   trim (str ''again'') \<noteq> [] \<and>
   fst (handleSendMessage (str ''p1'') (str ''T1'') (Inl NetworkError)
       (chat_initial\<lparr>inputText := str ''hello'', chat_state.loading := False\<rparr>)) =
     \<lparr>pet = None,
      messages = [\<lparr>role = RoleUser, content = str ''hello'', timestamp = str ''T1''\<rparr>],
      inputText = [], isTyping = False, loading = False\<rparr> \<and>
   requests (snd (handleSendMessage_submit (str ''p1'') (str ''T3'')
      ((fst (handleSendMessage (str ''p1'') (str ''T1'') (Inl NetworkError)
         (chat_initial\<lparr>inputText := str ''hello'', chat_state.loading := False\<rparr>)))
       \<lparr>inputText := str ''again''\<rparr>))) = [sendMessage (str ''p1'') (str ''again'')]"
proof -
  have h1: "trim (inputText (chat_initial\<lparr>inputText := str ''hello'', chat_state.loading := False\<rparr>)) \<noteq> []"
    by (simp add: trim_def str_def isWhiteSpace_def)
  have h2: "\<not> isTyping (chat_initial\<lparr>inputText := str ''hello'', chat_state.loading := False\<rparr>)"
    by (simp add: chat_initial_def)
  have h3: "trim (str ''again'') \<noteq> []"
    by (simp add: trim_def str_def isWhiteSpace_def)
  note fact = submit_failure [OF h1 h2, of "str ''p1''" "str ''T1''" NetworkError "str ''again''" "str ''T3''"]
  from fact have a: "fst (handleSendMessage (str ''p1'') (str ''T1'') (Inl NetworkError)
       (chat_initial\<lparr>inputText := str ''hello'', chat_state.loading := False\<rparr>)) =
     \<lparr>pet = None,
      messages = [\<lparr>role = RoleUser, content = str ''hello'', timestamp = str ''T1''\<rparr>],
      inputText = [], isTyping = False, loading = False\<rparr>"
    by (simp add: chat_initial_def)
  from fact h3 have b: "requests (snd (handleSendMessage_submit (str ''p1'') (str ''T3'')
      ((fst (handleSendMessage (str ''p1'') (str ''T1'') (Inl NetworkError)
         (chat_initial\<lparr>inputText := str ''hello'', chat_state.loading := False\<rparr>)))
       \<lparr>inputText := str ''again''\<rparr>))) = [sendMessage (str ''p1'') (str ''again'')]"
    by blast
  from h1 h2 h3 a b show ?thesis by blast
qed

text \<open>
  C3. An input is blank after trimming exactly when all its code units are white
  space (the empty input among them). A submit with such an input issues no request
  and returns the state as it was, whatever the transport would have answered.
\<close>

theorem submit_blank:
  "(trim t = [] \<longleftrightarrow> list_all isWhiteSpace t) \<and>
   (trim (inputText s) = [] \<longrightarrow>
      handleSendMessage_submit petId now s = (s, [PreventDefault]) \<and>
      handleSendMessage petId now response s = (s, [PreventDefault]) \<and>
      requests (snd (handleSendMessage petId now response s)) = [])"
proof -
  have a: "trim t = [] \<longleftrightarrow> list_all isWhiteSpace t"
    by (rule trim_empty_iff)
  have b: "trim (inputText s) = [] \<longrightarrow>
      handleSendMessage_submit petId now s = (s, [PreventDefault]) \<and>
      handleSendMessage petId now response s = (s, [PreventDefault]) \<and>
      requests (snd (handleSendMessage petId now response s)) = []"
    by (simp add: handleSendMessage_def handleSendMessage_submit_def falsy_string_def)
  from a b show ?thesis by blast
qed

theorem submit_blank_witness:
  "trim (inputText (chat_initial\<lparr>inputText := str ''   '', chat_state.loading := False\<rparr>)) = [] \<and>
   handleSendMessage (str ''p1'') (str ''T1'') (Inr (SendData (str ''Woof!'') (str ''T2'')))
       (chat_initial\<lparr>inputText := str ''   '', chat_state.loading := False\<rparr>) =
     (chat_initial\<lparr>inputText := str ''   '', chat_state.loading := False\<rparr>, [PreventDefault])"
proof -
  have h: "trim (inputText (chat_initial\<lparr>inputText := str ''   '', chat_state.loading := False\<rparr>)) = []"
    by (simp add: trim_def str_def isWhiteSpace_def)
  from submit_blank [of "[]" "chat_initial\<lparr>inputText := str ''   '', chat_state.loading := False\<rparr>"
      "str ''p1''" "str ''T1''" "Inr (SendData (str ''Woof!'') (str ''T2''))"] h
  show ?thesis by blast
qed

text \<open>
  C4. While the typing indicator is on, the first part of \<open>handleSendMessage\<close> returns
  before it appends anything or issues a request, so a submit event leaves the
  conversation as it is. Along every sequence of events on a freshly mounted page at
  most one send request is outstanding, and one is outstanding exactly while the
  typing indicator is on.
\<close>

theorem sending_guard:
  "(isTyping s \<longrightarrow> handleSendMessage_submit petId now s = (s, [PreventDefault])) \<and>
   (isTyping (ui ss) \<longrightarrow> step petId ss (FormSubmitted now) = ss) \<and>
   length (inflight (run petId evs)) \<le> 1 \<and>
   (isTyping (ui (run petId evs)) \<longleftrightarrow> length (inflight (run petId evs)) = 1)"
proof -
  have a: "isTyping s \<longrightarrow> handleSendMessage_submit petId now s = (s, [PreventDefault])"
    by (simp add: handleSendMessage_submit_def)
  have b: "isTyping (ui ss) \<longrightarrow> step petId ss (FormSubmitted now) = ss"
    by (simp add: handleSendMessage_submit_def)
  have "sending_inv (run petId evs)"
    by (rule run_sending_inv)
  then have c: "length (inflight (run petId evs)) \<le> 1 \<and>
      (isTyping (ui (run petId evs)) \<longleftrightarrow> length (inflight (run petId evs)) = 1)"
    by (auto simp: sending_inv_def)
  from a b c show ?thesis by blast
qed

theorem sending_guard_witness:
  "isTyping (chat_initial\<lparr>isTyping := True\<rparr>) \<and>
   handleSendMessage_submit (str ''p1'') (str ''T2'') (chat_initial\<lparr>isTyping := True\<rparr>) =
     (chat_initial\<lparr>isTyping := True\<rparr>, [PreventDefault]) \<and>
   isTyping (ui (run (str ''p1'')
     [InitSettled (Inl NetworkError) (Inr (Messages [])), InputChanged (str ''hello''),
      FormSubmitted (str ''T1''), InputChanged (str ''again''), FormSubmitted (str ''T2'')])) \<and>
   length (inflight (run (str ''p1'')
     [InitSettled (Inl NetworkError) (Inr (Messages [])), InputChanged (str ''hello''),
      FormSubmitted (str ''T1''), InputChanged (str ''again''), FormSubmitted (str ''T2'')])) = 1"
proof -
  have h: "isTyping (chat_initial\<lparr>isTyping := True\<rparr>)"
    by simp
  have t: "isTyping (ui (run (str ''p1'')
     [InitSettled (Inl NetworkError) (Inr (Messages [])), InputChanged (str ''hello''),
      FormSubmitted (str ''T1''), InputChanged (str ''again''), FormSubmitted (str ''T2'')]))"
    by (simp add: run_def session_initial_def chat_initial_def init_def
        handleSendMessage_submit_def falsy_string_def trim_def str_def isWhiteSpace_def)
  from sending_guard [of "chat_initial\<lparr>isTyping := True\<rparr>" "str ''p1''" "str ''T2''"
      session_initial
      "[InitSettled (Inl NetworkError) (Inr (Messages [])), InputChanged (str ''hello''),
        FormSubmitted (str ''T1''), InputChanged (str ''again''), FormSubmitted (str ''T2'')]"] h t
  show ?thesis by blast
qed

section \<open>Clearing the history\<close>

text \<open>
  C5. A confirmed \<open>handleClearHistory\<close> issues one \<open>DELETE\<close> of the history. When the
  request is fulfilled, the message sequence becomes empty and nothing else changes;
  when it is rejected, the whole state, the message sequence with it, is returned as
  it was and the error is logged. A declined confirmation issues no request and
  changes nothing.
\<close>

theorem clear_history:
  "handleClearHistory petId True (Inr u) s =
     (s\<lparr>messages := []\<rparr>,
      [Confirm (str ''Clear all chat history for this pet?''), Http (clearHistory petId)]) \<and>
   handleClearHistory petId True (Inl e) s =
     (s, [Confirm (str ''Clear all chat history for this pet?''), Http (clearHistory petId),
          ConsoleError (str ''Failed to clear history:'')]) \<and>
   handleClearHistory petId False response s =
     (s, [Confirm (str ''Clear all chat history for this pet?'')])"
  by (simp add: handleClearHistory_def)

section \<open>Initialising the page\<close>

text \<open>
  C6, as the specification states it, fails: when a fetch is rejected, \<open>init\<close> does not
  leave the page. On a freshly mounted page with \<open>GET /pets/p1\<close> rejected, it logs the
  error, pushes no route, clears \<open>loading\<close>, and the page renders the chat with no
  pet: the header falls back to \<open>Pet\<close> over an empty conversation.
\<close>

theorem init_failure_renders_chat:
  "init (str ''p1'') (Inl NetworkError) (Inr (Messages [])) chat_initial =
     (\<lparr>pet = None, messages = [], inputText = [], isTyping = False, loading = False\<rparr>,
      [Http (getPet (str ''p1'')), Http (getHistory (str ''p1'')),
       ConsoleError (str ''Failed to initialize chat:'')]) \<and>
   ChatPage (fst (init (str ''p1'') (Inl NetworkError) (Inr (Messages [])) chat_initial)) =
     Chat (str ''Pet'') [] False [] True"
  by (simp add: init_def chat_initial_def ChatPage_def pet_title_def falsy_string_def trim_def)

text \<open>
  C6, amended. \<open>init\<close> issues both requests on every path. When both are fulfilled it
  stores the pet and the messages of the history (the empty list for a falsy field),
  clears \<open>loading\<close> and leaves the typing indicator as it was. When either is rejected
  it stores neither: pet and messages stay as they were, the error is logged to the
  console, no route is pushed, \<open>loading\<close> is cleared, and the page renders the chat
  from the pet and the messages it held before.
\<close>

theorem init_outcomes:
  "requests (snd (init petId petRes historyRes s)) = [getPet petId, getHistory petId] \<and>
   init petId (Inr petData) (Inr field) s =
     (s\<lparr>pet := Some petData, messages := or_empty field, chat_state.loading := False\<rparr>,
      [Http (getPet petId), Http (getHistory petId)]) \<and>
   (isl petRes \<or> isl historyRes \<longrightarrow>
      init petId petRes historyRes s =
        (s\<lparr>chat_state.loading := False\<rparr>,
         [Http (getPet petId), Http (getHistory petId),
          ConsoleError (str ''Failed to initialize chat:'')]) \<and>
      ChatPage (fst (init petId petRes historyRes s)) =
        Chat (pet_title (pet s)) (messages s) (isTyping s) (inputText s)
             (falsy_string (trim (inputText s)) \<or> isTyping s))"
proof -
  have a: "requests (snd (init petId petRes historyRes s)) = [getPet petId, getHistory petId]"
    by (simp add: init_def Let_def split: sum.splits)
  have b: "init petId (Inr petData) (Inr field) s =
     (s\<lparr>pet := Some petData, messages := or_empty field, chat_state.loading := False\<rparr>,
      [Http (getPet petId), Http (getHistory petId)])"
    by (simp add: init_def)
  have c: "isl petRes \<or> isl historyRes \<longrightarrow>
      init petId petRes historyRes s =
        (s\<lparr>chat_state.loading := False\<rparr>,
         [Http (getPet petId), Http (getHistory petId),
          ConsoleError (str ''Failed to initialize chat:'')]) \<and>
      ChatPage (fst (init petId petRes historyRes s)) =
        Chat (pet_title (pet s)) (messages s) (isTyping s) (inputText s)
             (falsy_string (trim (inputText s)) \<or> isTyping s)"
    by (cases petRes; cases historyRes) (simp_all add: init_def ChatPage_def)
  from a b c show ?thesis by blast
qed

theorem init_outcomes_witness:
  "(isl (Inl NetworkError :: error + Pet) \<or>
    isl (Inl (HttpStatus 500) :: error + messages_field)) \<and>
   fst (init (str ''p1'') (Inl NetworkError) (Inl (HttpStatus 500)) chat_initial) =
     \<lparr>pet = None, messages = [], inputText = [], isTyping = False, loading = False\<rparr>"
  using init_outcomes [of "str ''p1''" "Inl NetworkError" "Inl (HttpStatus 500)" chat_initial]
  by (simp add: chat_initial_def)

text \<open>
  C9. When both fetches are fulfilled and the \<open>messages\<close> field of the history
  payload is falsy (missing, \<open>null\<close>, \<open>false\<close>, \<open>0\<close> or the empty string), \<open>init\<close>
  stores the empty list as the message sequence, stores the pet and clears
  \<open>loading\<close>, without logging an error.
\<close>

theorem init_falsy_messages:
  assumes "\<not> truthy field"
  shows "init petId (Inr petData) (Inr field) s =
           (s\<lparr>pet := Some petData, messages := [], chat_state.loading := False\<rparr>,
            [Http (getPet petId), Http (getHistory petId)])"
  using assms by (cases field) (simp_all add: init_def)

theorem init_falsy_messages_witness:
  "\<not> truthy JsonNull \<and>
   messages (fst (init (str ''p1'')
      (Inr \<lparr>id' = str ''p1'', name = str ''Buster'', pet_type = str ''dog'', breed = None,
            age = None, personality_traits = [], favorite_things = [], quirks = None,
            created_at = str ''T0''\<rparr>)
      (Inr JsonNull) chat_initial)) = []"
proof -
  have h: "\<not> truthy JsonNull" by simp
  from init_falsy_messages [OF h] have
    "messages (fst (init (str ''p1'')
      (Inr \<lparr>id' = str ''p1'', name = str ''Buster'', pet_type = str ''dog'', breed = None,
            age = None, personality_traits = [], favorite_things = [], quirks = None,
            created_at = str ''T0''\<rparr>)
      (Inr JsonNull) chat_initial)) = []"
    by simp
  with h show ?thesis by blast
qed

section \<open>Selecting personality traits\<close>

text \<open>
  C7. After every sequence of clicks on trait buttons in a fresh form the list of
  personality traits has at most 5 entries and no duplicates. A click on a selected
  trait removes its occurrences and nothing else (in a list without duplicates, that
  one entry); a click on a trait that is not selected appends it at the end while
  fewer than 5 are selected, and changes nothing otherwise. In every case the other
  traits keep their places relative to each other, so the list is in the order of
  selection.
\<close>

theorem toggleTrait_traits:
  "length (personality_traits (toggles ts formData_initial)) \<le> 5 \<and>
   distinct (personality_traits (toggles ts formData_initial)) \<and>
   (trait \<in> set (personality_traits fd) \<longrightarrow>
      toggleTrait trait fd =
        fd\<lparr>personality_traits := filter (\<lambda>t. t \<noteq> trait) (personality_traits fd)\<rparr> \<and>
      trait \<notin> set (personality_traits (toggleTrait trait fd)) \<and>
      (distinct (personality_traits fd) \<longrightarrow>
         personality_traits (toggleTrait trait fd) = remove1 trait (personality_traits fd) \<and>
         length (personality_traits (toggleTrait trait fd)) + 1 =
           length (personality_traits fd))) \<and>
   (trait \<notin> set (personality_traits fd) \<and> length (personality_traits fd) < 5 \<longrightarrow>
      toggleTrait trait fd = fd\<lparr>personality_traits := personality_traits fd @ [trait]\<rparr>) \<and>
   (trait \<notin> set (personality_traits fd) \<and> 5 \<le> length (personality_traits fd) \<longrightarrow>
      toggleTrait trait fd = fd) \<and>
   filter (\<lambda>t. t \<noteq> trait) (personality_traits (toggleTrait trait fd)) =
     filter (\<lambda>t. t \<noteq> trait) (personality_traits fd)"
proof -
  have a: "length (personality_traits (toggles ts formData_initial)) \<le> 5 \<and>
      distinct (personality_traits (toggles ts formData_initial))"
    by (rule toggles_invariant) (simp add: formData_initial_def)
  have b: "trait \<in> set (personality_traits fd) \<longrightarrow>
      toggleTrait trait fd =
        fd\<lparr>personality_traits := filter (\<lambda>t. t \<noteq> trait) (personality_traits fd)\<rparr> \<and>
      trait \<notin> set (personality_traits (toggleTrait trait fd)) \<and>
      (distinct (personality_traits fd) \<longrightarrow>
         personality_traits (toggleTrait trait fd) = remove1 trait (personality_traits fd) \<and>
         length (personality_traits (toggleTrait trait fd)) + 1 =
           length (personality_traits fd))"
    by (auto simp: toggleTrait_def filter_neq_remove1 length_remove1 dest: length_pos_if_in_set)
  have c: "trait \<notin> set (personality_traits fd) \<and> length (personality_traits fd) < 5 \<longrightarrow>
      toggleTrait trait fd = fd\<lparr>personality_traits := personality_traits fd @ [trait]\<rparr>"
    by (simp add: toggleTrait_def)
  have d: "trait \<notin> set (personality_traits fd) \<and> 5 \<le> length (personality_traits fd) \<longrightarrow>
      toggleTrait trait fd = fd"
    by (simp add: toggleTrait_def)
  have e: "filter (\<lambda>t. t \<noteq> trait) (personality_traits (toggleTrait trait fd)) =
     filter (\<lambda>t. t \<noteq> trait) (personality_traits fd)"
    by (simp add: toggleTrait_def)
  from a b c d e show ?thesis by blast
qed

theorem toggleTrait_traits_witness:
  "str ''lazy'' \<in> set (personality_traits
      (toggles [str ''playful'', str ''lazy'', str ''shy''] formData_initial)) \<and>
   distinct (personality_traits
      (toggles [str ''playful'', str ''lazy'', str ''shy''] formData_initial)) \<and>
   personality_traits (toggleTrait (str ''lazy'')
      (toggles [str ''playful'', str ''lazy'', str ''shy''] formData_initial)) =
     [str ''playful'', str ''shy'']"
proof -
  have v: "personality_traits
      (toggles [str ''playful'', str ''lazy'', str ''shy''] formData_initial) =
      [str ''playful'', str ''lazy'', str ''shy'']"
    by (simp add: toggles_def toggleTrait_def formData_initial_def str_def)
  have h1: "str ''lazy'' \<in> set (personality_traits
      (toggles [str ''playful'', str ''lazy'', str ''shy''] formData_initial))"
    unfolding v by simp
  have h2: "distinct (personality_traits
      (toggles [str ''playful'', str ''lazy'', str ''shy''] formData_initial))"
    unfolding v by (simp add: str_def)
  from toggleTrait_traits [of "[]" "str ''lazy''"
      "toggles [str ''playful'', str ''lazy'', str ''shy''] formData_initial"] h1 h2
  have "personality_traits (toggleTrait (str ''lazy'')
      (toggles [str ''playful'', str ''lazy'', str ''shy''] formData_initial)) =
      remove1 (str ''lazy'') (personality_traits
        (toggles [str ''playful'', str ''lazy'', str ''shy''] formData_initial))"
    by blast
  then have "personality_traits (toggleTrait (str ''lazy'')
      (toggles [str ''playful'', str ''lazy'', str ''shy''] formData_initial)) =
     [str ''playful'', str ''shy'']"
    unfolding v by (simp add: str_def)
  with h1 h2 show ?thesis by blast
qed

section \<open>Redirecting without an identity\<close>

text \<open>
  C8. When the identity provider observes no signed-in identity, it stores that and
  pushes the route \<open>/login\<close>, unless the current path is \<open>/login\<close> or \<open>/signup\<close>, where
  it pushes nothing. When it observes an identity, it stores it and pushes nothing.
  In every case \<open>loading\<close> is cleared.
\<close>

theorem auth_redirect:
  "(pathname \<noteq> str ''/login'' \<and> pathname \<noteq> str ''/signup'' \<longrightarrow>
      authStateChanged pathname None a =
        (a\<lparr>user := None, auth_state.loading := False\<rparr>, [RouterPush (str ''/login'')])) \<and>
   (pathname = str ''/login'' \<or> pathname = str ''/signup'' \<longrightarrow>
      authStateChanged pathname None a = (a\<lparr>user := None, auth_state.loading := False\<rparr>, [])) \<and>
   authStateChanged pathname (Some u) a =
     (a\<lparr>user := Some u, auth_state.loading := False\<rparr>, [])"
  by (auto simp: authStateChanged_def)

theorem auth_redirect_witness:
  "str ''/chat/p1'' \<noteq> str ''/login'' \<and> str ''/chat/p1'' \<noteq> str ''/signup'' \<and>
   snd (authStateChanged (str ''/chat/p1'') None auth_initial) = [RouterPush (str ''/login'')] \<and>
   snd (authStateChanged (str ''/signup'') None auth_initial) = []"
proof -
  have h: "str ''/chat/p1'' \<noteq> str ''/login'' \<and> str ''/chat/p1'' \<noteq> str ''/signup''"
    by (simp add: str_def)
  from auth_redirect [of "str ''/chat/p1''" auth_initial] h
  have a: "snd (authStateChanged (str ''/chat/p1'') None auth_initial) = [RouterPush (str ''/login'')]"
    by simp
  from auth_redirect [of "str ''/signup''" auth_initial]
  have b: "snd (authStateChanged (str ''/signup'') None auth_initial) = []"
    by simp
  from h a b show ?thesis by blast
qed

section \<open>Deleting a pet\<close>

text \<open>
  A call of \<open>handleDeletePet\<close> during which nothing else changes the list: when the
  request is fulfilled, exactly the pets with another id are kept, in their order;
  when it is rejected or the confirmation is declined, the state is as it was. The
  second part never changes the state on a rejected request, whatever the list is.
\<close>

lemma handleDeletePet_alone:
  "handleDeletePet i True (Inr u) d =
     (d\<lparr>pets := filter (\<lambda>p. Pet.id' p \<noteq> i) (pets d)\<rparr>,
      [PreventDefault, StopPropagation,
       Confirm (str ''Are you sure you want to delete this pet?''), Http (deletePet i)]) \<and>
   handleDeletePet i True (Inl e) d =
     (d, [PreventDefault, StopPropagation,
          Confirm (str ''Are you sure you want to delete this pet?''), Http (deletePet i),
          ConsoleError (str ''Failed to delete pet:'')]) \<and>
   handleDeletePet i False response d =
     (d, [PreventDefault, StopPropagation,
          Confirm (str ''Are you sure you want to delete this pet?'')]) \<and>
   fst (handleDeletePet_settle i rendered (Inl e) d) = d"
  by (simp add: handleDeletePet_def handleDeletePet_click_def handleDeletePet_settle_def)

text \<open>
  C10 does not hold of the code when two deletes overlap. The dashboard shows the pets
  \<open>a\<close>, \<open>b\<close>, \<open>c\<close>; the user deletes \<open>a\<close> and, before that request settles, deletes \<open>b\<close>;
  both requests are fulfilled. The first success leaves \<open>b\<close>, \<open>c\<close>. The second one
  filters the list its handler closed over, which still holds \<open>a\<close>, and writes \<open>a\<close>,
  \<open>c\<close>: the deleted pet \<open>a\<close> is back in the list, where the claim leaves \<open>c\<close> alone.
\<close>

theorem delete_pet_overlapping:
  "map Pet.id' (pets (board (dashboard_run
     [PetsFetched (str ''u1'')
        (Inr [dog (str ''a'') (str ''Ada''), dog (str ''b'') (str ''Buster''),
              dog (str ''c'') (str ''Coco'')]),
      DeleteClicked (str ''a'') True,
      DeleteClicked (str ''b'') True,
      DeleteSettled (Inr ())]))) = [str ''b'', str ''c''] \<and>
   pets (board (dashboard_run
     [PetsFetched (str ''u1'')
        (Inr [dog (str ''a'') (str ''Ada''), dog (str ''b'') (str ''Buster''),
              dog (str ''c'') (str ''Coco'')]),
      DeleteClicked (str ''a'') True,
      DeleteClicked (str ''b'') True,
      DeleteSettled (Inr ()),
      DeleteSettled (Inr ())])) =
     [dog (str ''a'') (str ''Ada''), dog (str ''c'') (str ''Coco'')]"
  by (simp add: dashboard_run_def dashboard_initial_def fetchPets_def
      handleDeletePet_click_def handleDeletePet_settle_def str_def)

end
